theory Spec2Isabelle
  imports Complex_Main "HOL-Library.Char_ord" "HOL-Library.List_Lexorder"
begin

section \<open>Nexus Commander: the drafting assistant and the Draft Master game\<close>

text \<open>
  A shallow embedding of \<^verbatim>\<open>src/components/drafting_assistant.py\<close> and
  \<^verbatim>\<open>src/components/draft_master_game.py\<close>, with the two accessors of
  \<^verbatim>\<open>src/core/data_ingestion.py\<close> they call.

  Conventions.
  \<^item> Python \<^verbatim>\<open>float\<close> values are modelled by exact rationals (\<^typ>\<open>rat\<close>); rounding is
    not modelled. Every concrete evaluation below states in its text whether the
    numbers involved are exactly representable.
  \<^item> A \<^verbatim>\<open>defaultdict\<close> or \<^verbatim>\<open>dict\<close> that is only looked up is a map; the default is written
    at each read, as the source writes it (\<^verbatim>\<open>d[k]\<close> with the factory's value,
    \<^verbatim>\<open>d.get(k, v)\<close> with \<open>v\<close>). A read of a \<^verbatim>\<open>defaultdict\<close> also stores the default
    under the key; no later read can tell, so the store is left out.
  \<^item> A counting \<^verbatim>\<open>defaultdict(int)\<close> that is iterated with \<^verbatim>\<open>.items()\<close> is an
    association list in insertion order.
  \<^item> An exception is a value \<open>Inl e\<close> of a sum type; \<^verbatim>\<open>random.choice\<close> and
    \<^verbatim>\<open>datetime.now()\<close> read an explicit argument.
\<close>

subsection \<open>Match records (data ingestion)\<close>

text \<open>One entry of \<^verbatim>\<open>DraftData.picks\<close>: the dictionary built by \<^verbatim>\<open>_extract_draft\<close>.\<close>

record draft_entry =
  e_champion :: string
  e_team_id :: string
  e_sequence :: int
  e_type :: string

record DraftData =
  dd_bans :: "draft_entry list"
  dd_picks :: "draft_entry list"
  dd_sequence :: "draft_entry list"

definition get_team_picks :: "DraftData \<Rightarrow> string \<Rightarrow> string list" where
  "get_team_picks d tid = map e_champion (filter (\<lambda>p. e_team_id p = tid) (dd_picks d))"

text \<open>The two fields of \<^verbatim>\<open>TeamStats\<close> that the graph reads.\<close>

record TeamStats =
  ts_team_id :: string
  ts_win :: bool

text \<open>The fields of \<^verbatim>\<open>MatchMetadata\<close> that the game reads.\<close>

record MatchMetadata =
  match_id :: string
  md_tournament :: string
  team1_id :: string
  team1_name :: string
  team2_name :: string

text \<open>
  A parsed match: the keys \<^verbatim>\<open>'metadata'\<close>, \<^verbatim>\<open>'draft'\<close> and \<^verbatim>\<open>'team_stats'\<close> of the
  dictionary that \<^verbatim>\<open>parse_match\<close> returns.
\<close>

record parsed_match =
  m_metadata :: MatchMetadata
  m_draft :: DraftData
  m_team_stats :: "TeamStats list"

subsection \<open>ChampionGraph\<close>

record ChampionGraph =
  synergies :: "string \<Rightarrow> string \<rightharpoonup> rat"
  counters :: "string \<Rightarrow> string \<rightharpoonup> rat"
  win_rates :: "string \<rightharpoonup> rat"
  pick_rates :: "string \<rightharpoonup> rat"

text \<open>\<^verbatim>\<open>ChampionGraph.__init__\<close>: every dictionary empty.\<close>

definition new_graph :: ChampionGraph where
  "new_graph = \<lparr> synergies = (\<lambda>_. Map.empty), counters = (\<lambda>_. Map.empty),
     win_rates = Map.empty, pick_rates = Map.empty \<rparr>"

text \<open>\<^verbatim>\<open>self.win_rates[c]\<close> with the factory \<^verbatim>\<open>lambda: 0.5\<close>.\<close>

definition win_rate_of :: "ChampionGraph \<Rightarrow> string \<Rightarrow> rat" where
  "win_rate_of g c = (case win_rates g c of None \<Rightarrow> 1 / 2 | Some v \<Rightarrow> v)"

text \<open>\<^verbatim>\<open>self.pick_rates[c]\<close> with the factory \<^verbatim>\<open>lambda: 0.0\<close>.\<close>

definition pick_rate_of :: "ChampionGraph \<Rightarrow> string \<Rightarrow> rat" where
  "pick_rate_of g c = (case pick_rates g c of None \<Rightarrow> 0 | Some v \<Rightarrow> v)"

text \<open>\<^verbatim>\<open>self.synergies[a][b]\<close> (factory \<^verbatim>\<open>float\<close>) and \<^verbatim>\<open>self.synergies[a].get(b, 0)\<close>.\<close>

definition synergy_of :: "ChampionGraph \<Rightarrow> string \<Rightarrow> string \<Rightarrow> rat" where
  "synergy_of g a b = (case synergies g a b of None \<Rightarrow> 0 | Some v \<Rightarrow> v)"

text \<open>\<^verbatim>\<open>self.counters[a].get(b, 0.5)\<close>.\<close>

definition counter_of :: "ChampionGraph \<Rightarrow> string \<Rightarrow> string \<Rightarrow> rat" where
  "counter_of g a b = (case counters g a b of None \<Rightarrow> 1 / 2 | Some v \<Rightarrow> v)"

subsubsection \<open>Counting dictionaries\<close>

text \<open>\<^verbatim>\<open>d[k] += 1\<close> on a \<^verbatim>\<open>defaultdict(int)\<close>: a new key goes to the end.\<close>

fun incr :: "'k \<Rightarrow> ('k \<times> nat) list \<Rightarrow> ('k \<times> nat) list" where
  "incr k [] = [(k, 1)]"
| "incr k ((k', n) # d) = (if k = k' then (k', n + 1) # d else (k', n) # incr k d)"

text \<open>\<^verbatim>\<open>d[k]\<close> on a \<^verbatim>\<open>defaultdict(int)\<close>.\<close>

definition count_of :: "('k \<times> nat) list \<Rightarrow> 'k \<Rightarrow> nat" where
  "count_of d k = (case map_of d k of None \<Rightarrow> 0 | Some n \<Rightarrow> n)"

record tallies =
  teammate_pairs :: "((string \<times> string) \<times> nat) list"
  teammate_wins :: "((string \<times> string) \<times> nat) list"
  matchup_counts :: "((string \<times> string) \<times> nat) list"
  matchup_wins :: "((string \<times> string) \<times> nat) list"
  champion_games :: "(string \<times> nat) list"
  champion_wins :: "(string \<times> nat) list"

definition no_tallies :: tallies where
  "no_tallies = \<lparr> teammate_pairs = [], teammate_wins = [], matchup_counts = [],
     matchup_wins = [], champion_games = [], champion_wins = [] \<rparr>"

text \<open>\<^verbatim>\<open>tuple(sorted([champ1, champ2]))\<close>; strings compare lexicographically.\<close>

definition sorted_pair :: "string \<Rightarrow> string \<Rightarrow> string \<times> string" where
  "sorted_pair champ1 champ2 = (if champ2 < champ1 then (champ2, champ1) else (champ1, champ2))"

text \<open>
  The pairs \<^verbatim>\<open>(xs[i], y)\<close> for \<^verbatim>\<open>y in xs[i+1:]\<close>, in the order the two nested loops
  visit them.
\<close>

fun later_pairs :: "'a list \<Rightarrow> ('a \<times> 'a) list" where
  "later_pairs [] = []"
| "later_pairs (x # xs) = map (Pair x) xs @ later_pairs xs"

text \<open>The pairs \<^verbatim>\<open>(x, y)\<close> for \<^verbatim>\<open>x in xs\<close>, \<^verbatim>\<open>y in ys\<close>, in loop order.\<close>

definition cross_pairs :: "'a list \<Rightarrow> 'b list \<Rightarrow> ('a \<times> 'b) list" where
  "cross_pairs xs ys = concat (map (\<lambda>x. map (Pair x) ys) xs)"

definition tally_champion :: "bool \<Rightarrow> string \<Rightarrow> tallies \<Rightarrow> tallies" where
  "tally_champion won champ t =
     t\<lparr> champion_games := incr champ (champion_games t),
        champion_wins := (if won then incr champ (champion_wins t) else champion_wins t) \<rparr>"

definition tally_teammates :: "bool \<Rightarrow> string \<times> string \<Rightarrow> tallies \<Rightarrow> tallies" where
  "tally_teammates won p t =
     (let pair = sorted_pair (fst p) (snd p) in
      t\<lparr> teammate_pairs := incr pair (teammate_pairs t),
         teammate_wins := (if won then incr pair (teammate_wins t) else teammate_wins t) \<rparr>)"

definition tally_matchup :: "bool \<Rightarrow> string \<times> string \<Rightarrow> tallies \<Rightarrow> tallies" where
  "tally_matchup won matchup t =
     t\<lparr> matchup_counts := incr matchup (matchup_counts t),
        matchup_wins := (if won then incr matchup (matchup_wins t) else matchup_wins t) \<rparr>"

text \<open>The body of \<^verbatim>\<open>for team_stat in match['team_stats']\<close>.\<close>

definition tally_team :: "DraftData \<Rightarrow> TeamStats \<Rightarrow> tallies \<Rightarrow> tallies" where
  "tally_team draft team_stat t =
     (let team_id = ts_team_id team_stat;
          team_picks = get_team_picks draft team_id;
          won = ts_win team_stat;
          t1 = fold (tally_champion won) team_picks t;
          t2 = fold (tally_teammates won) (later_pairs team_picks) t1;
          opponent_picks = filter (\<lambda>p. e_team_id p \<noteq> team_id \<and> e_type p = ''pick'')
                             (dd_picks draft);
          opponent_champs = map e_champion opponent_picks
      in fold (tally_matchup won) (cross_pairs team_picks opponent_champs) t2)"

definition tally_match :: "parsed_match \<Rightarrow> tallies \<Rightarrow> tallies" where
  "tally_match m t = fold (tally_team (m_draft m)) (m_team_stats m) t"

subsubsection \<open>The four passes that fill the graph\<close>

definition synergy_step ::
  "tallies \<Rightarrow> (string \<times> string) \<times> nat \<Rightarrow> ChampionGraph \<Rightarrow> ChampionGraph" where
  "synergy_step t item g =
     (let champ1 = fst (fst item); champ2 = snd (fst item); count = snd item in
      if count \<ge> 3 then
        (let win_rate = rat_of_nat (count_of (teammate_wins t) (champ1, champ2)) / rat_of_nat count;
             expected = (win_rate_of g champ1 + win_rate_of g champ2) / 2;
             synergy = win_rate - expected;
             g1 = g\<lparr> synergies := (synergies g)(champ1 := (synergies g champ1)(champ2 \<mapsto> synergy)) \<rparr>
         in g1\<lparr> synergies := (synergies g1)(champ2 := (synergies g1 champ2)(champ1 \<mapsto> synergy)) \<rparr>)
      else g)"

definition counter_step ::
  "tallies \<Rightarrow> (string \<times> string) \<times> nat \<Rightarrow> ChampionGraph \<Rightarrow> ChampionGraph" where
  "counter_step t item g =
     (let my_champ = fst (fst item); opp_champ = snd (fst item); count = snd item in
      if count \<ge> 3 then
        (let win_rate = rat_of_nat (count_of (matchup_wins t) (my_champ, opp_champ)) / rat_of_nat count
         in g\<lparr> counters := (counters g)(my_champ := (counters g my_champ)(opp_champ \<mapsto> win_rate)) \<rparr>)
      else g)"

definition win_rate_step :: "tallies \<Rightarrow> string \<times> nat \<Rightarrow> ChampionGraph \<Rightarrow> ChampionGraph" where
  "win_rate_step t item g =
     (let champ = fst item; games = snd item in
      if games > 0 then
        g\<lparr> win_rates := (win_rates g)(champ \<mapsto> rat_of_nat (count_of (champion_wins t) champ) / rat_of_nat games) \<rparr>
      else g)"

definition pick_rate_step :: "nat \<Rightarrow> string \<times> nat \<Rightarrow> ChampionGraph \<Rightarrow> ChampionGraph" where
  "pick_rate_step total_games item g =
     (let champ = fst item; games = snd item in
      g\<lparr> pick_rates := (pick_rates g)(champ \<mapsto> rat_of_nat games / rat_of_nat total_games) \<rparr>)"

text \<open>
  \<^verbatim>\<open>ChampionGraph.build_from_matches\<close>. The passes run in the order of the source:
  synergy scores, counter scores, win rates, pick rates. The division of the last pass
  has a non-zero divisor whenever it runs (a counted champion comes from some match).
\<close>

definition build_from_matches :: "ChampionGraph \<Rightarrow> parsed_match list \<Rightarrow> ChampionGraph" where
  "build_from_matches g parsed_matches =
     (let t = fold tally_match parsed_matches no_tallies;
          g1 = fold (synergy_step t) (teammate_pairs t) g;
          g2 = fold (counter_step t) (matchup_counts t) g1;
          g3 = fold (win_rate_step t) (champion_games t) g2;
          total_games = length parsed_matches
      in fold (pick_rate_step total_games) (champion_games t) g3)"

subsubsection \<open>Queries\<close>

definition get_champion_power :: "ChampionGraph \<Rightarrow> string \<Rightarrow> rat" where
  "get_champion_power g champion' =
     (let base_power = win_rate_of g champion';
          popularity_bonus = min (pick_rate_of g champion' * (2 / 10)) (1 / 10)
      in base_power + popularity_bonus)"

definition get_team_synergy :: "ChampionGraph \<Rightarrow> string list \<Rightarrow> rat" where
  "get_team_synergy g champions =
     (if length champions \<le> 1 then 0
      else (let ps = later_pairs champions;
                total_synergy = sum_list (map (\<lambda>p. synergy_of g (fst p) (snd p)) ps);
                pairs = length ps
            in if pairs > 0 then total_synergy / rat_of_nat pairs else 0))"

definition get_counter_score :: "ChampionGraph \<Rightarrow> string list \<Rightarrow> string list \<Rightarrow> rat" where
  "get_counter_score g my_champions opponent_champions =
     (if my_champions = [] \<or> opponent_champions = [] then 0
      else (let ps = cross_pairs my_champions opponent_champions;
                total_score = sum_list (map (\<lambda>p. counter_of g (fst p) (snd p) - 1 / 2) ps);
                matchups = length ps
            in if matchups > 0 then total_score / rat_of_nat matchups else 0))"

subsection \<open>DraftPredictor\<close>

record DraftState =
  team1_picks :: "string list"
  team1_bans :: "string list"
  team2_picks :: "string list"
  team2_bans :: "string list"
  phase_name :: string
  turn :: int

text \<open>\<^verbatim>\<open>np.mean\<close> of a non-empty list.\<close>

definition mean :: "rat list \<Rightarrow> rat" where
  "mean xs = sum_list xs / rat_of_nat (length xs)"

record win_probs =
  team1 :: rat
  team2 :: rat

definition predict_win_probability :: "ChampionGraph \<Rightarrow> DraftState \<Rightarrow> win_probs" where
  "predict_win_probability g draft_state =
     (let team1_power = (if team1_picks draft_state \<noteq> []
                         then mean (map (get_champion_power g) (team1_picks draft_state)) else 1 / 2);
          team2_power = (if team2_picks draft_state \<noteq> []
                         then mean (map (get_champion_power g) (team2_picks draft_state)) else 1 / 2);
          team1_synergy = get_team_synergy g (team1_picks draft_state);
          team2_synergy = get_team_synergy g (team2_picks draft_state);
          counter_advantage = get_counter_score g (team1_picks draft_state) (team2_picks draft_state);
          team1_score = team1_power + team1_synergy + counter_advantage;
          team2_score = team2_power + team2_synergy - counter_advantage;
          total = team1_score + team2_score
      in if total > 0 then \<lparr> team1 = team1_score / total, team2 = team2_score / total \<rparr>
         else \<lparr> team1 = 1 / 2, team2 = 1 / 2 \<rparr>)"

subsubsection \<open>Recommendations\<close>

text \<open>
  The reasoning strings of a recommendation are f-strings around formatted floats;
  they are kept as tags that hold the values the text is built from.
\<close>

datatype reason =
    StrongSynergy "(string \<times> rat) list"
  | Counters "(string \<times> rat) list"
  | StrongMetaPick rat
  | SolidOption
  | HighWinRate rat
  | CommonlyPicked rat
  | CountersOurComposition
  | StandardBan

record DraftRecommendation =
  champion :: string
  win_rate_impact :: rat
  reasoning :: "reason list"
  rec_synergies :: "(string \<times> rat) list"
  rec_counters :: "(string \<times> rat) list"
  priority :: string
  confidence :: rat

text \<open>
  \<^verbatim>\<open>xs.sort(key=f, reverse=True)\<close>: descending by key, and stable (Python keeps the
  original order of elements with equal keys also when reversing).
\<close>

definition sort_desc :: "('a \<Rightarrow> rat) \<Rightarrow> 'a list \<Rightarrow> 'a list" where
  "sort_desc f xs = sort_key (\<lambda>x. - f x) xs"

text \<open>The body of the loop of \<^verbatim>\<open>recommend_pick\<close> for one candidate.\<close>

definition pick_recommendation ::
  "ChampionGraph \<Rightarrow> string list \<Rightarrow> string list \<Rightarrow> string \<Rightarrow> DraftRecommendation" where
  "pick_recommendation g my_picks opp_picks c =
     (let test_picks = my_picks @ [c];
          synergy_score = get_team_synergy g test_picks;
          counter_score = get_counter_score g test_picks opp_picks;
          champion_power = get_champion_power g c;
          total_score = champion_power + synergy_score * (3 / 10) + counter_score * (4 / 10);
          syns = map (\<lambda>my_champ. (my_champ, synergy_of g c my_champ))
                   (filter (\<lambda>my_champ. synergy_of g c my_champ > 5 / 100) my_picks);
          cnts = map (\<lambda>opp_champ. (opp_champ, counter_of g c opp_champ))
                   (filter (\<lambda>opp_champ. counter_of g c opp_champ > 6 / 10) opp_picks);
          rs = (if syns \<noteq> [] then [StrongSynergy (take 2 syns)] else [])
                @ (if cnts \<noteq> [] then [Counters (take 2 cnts)] else [])
                @ (if champion_power > 52 / 100 then [StrongMetaPick champion_power] else []);
          prio = (if total_score > 65 / 100 then ''critical''
                  else if total_score > 55 / 100 then ''high''
                  else if total_score > 50 / 100 then ''medium''
                  else ''low'')
      in \<lparr> champion = c, win_rate_impact = total_score - 1 / 2,
           reasoning = (if rs \<noteq> [] then rs else [SolidOption]),
           rec_synergies = syns, rec_counters = cnts, priority = prio,
           confidence = min (champion_power * 2) 1 \<rparr>)"

definition recommend_pick ::
  "ChampionGraph \<Rightarrow> DraftState \<Rightarrow> int \<Rightarrow> string list \<Rightarrow> DraftRecommendation list" where
  "recommend_pick g draft_state team available_champions =
     (let my_picks = (if team = 1 then team1_picks draft_state else team2_picks draft_state);
          opp_picks = (if team = 1 then team2_picks draft_state else team1_picks draft_state);
          recs = map (pick_recommendation g my_picks opp_picks) (take 30 available_champions)
      in take 10 (sort_desc win_rate_impact recs))"

text \<open>The body of the loop of \<^verbatim>\<open>recommend_ban\<close> for one candidate.\<close>

definition ban_recommendation :: "ChampionGraph \<Rightarrow> string list \<Rightarrow> string \<Rightarrow> DraftRecommendation" where
  "ban_recommendation g my_picks c =
     (let champion_power = get_champion_power g c;
          pick_rate = pick_rate_of g c;
          threat_to_us = (if my_picks \<noteq> []
                          then mean (map (\<lambda>my_champ. counter_of g c my_champ) my_picks) - 1 / 2
                          else 0);
          threat_score = champion_power * (5 / 10) + threat_to_us * (3 / 10) + pick_rate * (2 / 10);
          rs = (if champion_power > 53 / 100 then [HighWinRate champion_power] else [])
                @ (if pick_rate > 3 / 10 then [CommonlyPicked pick_rate] else [])
                @ (if threat_to_us > 5 / 100 then [CountersOurComposition] else []);
          prio = (if threat_score > 6 / 10 then ''critical''
                  else if threat_score > 55 / 100 then ''high''
                  else ''medium'')
      in \<lparr> champion = c, win_rate_impact = threat_score,
           reasoning = (if rs \<noteq> [] then rs else [StandardBan]),
           rec_synergies = [], rec_counters = [], priority = prio,
           confidence = min (pick_rate * 3) 1 \<rparr>)"

definition recommend_ban ::
  "ChampionGraph \<Rightarrow> DraftState \<Rightarrow> int \<Rightarrow> string list \<Rightarrow> DraftRecommendation list" where
  "recommend_ban g draft_state team available_champions =
     (let my_picks = (if team = 1 then team1_picks draft_state else team2_picks draft_state);
          recs = map (ban_recommendation g my_picks) (take 30 available_champions)
      in take 10 (sort_desc win_rate_impact recs))"

subsection \<open>DraftingAssistant\<close>

text \<open>
  The two attributes of \<^verbatim>\<open>DraftingAssistant\<close> that the game reads. \<^verbatim>\<open>all_champions\<close> is a
  Python \<^verbatim>\<open>set\<close>; the game only iterates over it, so it is the list of its elements in
  the order the iteration yields them (some order, fixed for the set).
\<close>

record DraftingAssistant =
  graph :: ChampionGraph
  all_champions :: "string list"

subsection \<open>Draft Master: state and scoring\<close>

datatype exn = IndexError | UnboundLocalError | ValueError

text \<open>The dictionary \<^verbatim>\<open>extras\<close> that \<^verbatim>\<open>score_pick\<close> returns.\<close>

record move_extras =
  bonuses :: "(string \<times> int) list"
  streak :: int
  combo :: int
  base :: int
  time_bonus :: int

text \<open>
  The dictionary \<^verbatim>\<open>move_record\<close> of \<^verbatim>\<open>make_move\<close>. Of the reasoning text only the
  leading verdict is kept; the rest of the string repeats the bonuses.
\<close>

record move_record =
  mv_phase :: int
  mv_action :: string
  mv_champion :: string
  mv_score :: int
  mv_reasoning :: string
  mv_time_taken :: rat
  mv_extras :: move_extras

record GameState =
  game_id :: string
  player_name :: string
  difficulty :: string
  historical_match_id :: string
  tournament :: string
  real_team1 :: string
  real_team2 :: string
  player_picks :: "string list"
  player_bans :: "string list"
  ai_picks :: "string list"
  ai_bans :: "string list"
  current_phase :: int
  player_turn :: bool
  score :: int
  moves_evaluated :: "move_record list"
  combo_count :: int
  streak_count :: int
  powerups_active :: "string list"
  achievements :: "string list"
  perfect_moves :: int
  started_at :: nat
  completed_at :: "nat option"
  final_win_probability :: rat

text \<open>
  The loop \<^verbatim>\<open>for i, rec in enumerate(recommendations)\<close> with its \<^verbatim>\<open>break\<close>: the index of
  the first recommendation of the chosen champion, \<open>None\<close> when there is none.
\<close>

fun find_rank :: "nat \<Rightarrow> string \<Rightarrow> DraftRecommendation list \<Rightarrow> nat option" where
  "find_rank i c [] = None"
| "find_rank i c (r # rs) = (if champion r = c then Some i else find_rank (Suc i) c rs)"

text \<open>
  The \<^verbatim>\<open>if chosen_rank is None / elif\<close> chain of \<^verbatim>\<open>score_pick\<close>: base score, verdict, the
  bonuses appended in the branch, and the updated state. The numbers are the entries
  of \<^verbatim>\<open>scoring_rules\<close> and \<^verbatim>\<open>achievements\<close> that the branch reads;
  \<^verbatim>\<open>int(base_score * 1.5)\<close> is the floor of a non-negative number.
\<close>

definition rank_branch ::
  "nat option \<Rightarrow> GameState \<Rightarrow> int \<times> string \<times> (string \<times> int) list \<times> GameState" where
  "rank_branch chosen_rank gs =
     (case chosen_rank of
        None \<Rightarrow> (0, ''Unconventional choice'', [], gs\<lparr> streak_count := 0 \<rparr>)
      | Some r \<Rightarrow>
          if r = 0 then
            (let gs1 = gs\<lparr> streak_count := streak_count gs + 1,
                           perfect_moves := perfect_moves gs + 1 \<rparr>;
                 b1 = (if perfect_moves gs1 = 1 then [(''First Blood'', 50)] else []);
                 gs2 = (if streak_count gs1 \<ge> 3
                        then gs1\<lparr> combo_count := combo_count gs1 + 1 \<rparr> else gs1);
                 b2 = (if streak_count gs1 \<ge> 3
                       then [(''Combo x3'', \<lfloor>rat_of_int 100 * (15 / 10)\<rfloor>)]
                            @ (if combo_count gs2 = 1 then [(''Combo Master'', 150)] else [])
                       else [])
             in (100, ''Optimal pick!'', b1 @ b2, gs2))
          else if r \<le> 2 then
            (75, ''Good pick!'', [], gs\<lparr> streak_count := max 0 (streak_count gs - 1) \<rparr>)
          else if r \<le> 5 then
            (50, ''Acceptable pick'', [], gs\<lparr> streak_count := 0 \<rparr>)
          else
            (25, ''Suboptimal - better options available'', [], gs\<lparr> streak_count := 0 \<rparr>))"

text \<open>
  \<^verbatim>\<open>int(max(0, 30 - time_taken) * self.scoring_rules['time_bonus'])\<close>: \<^verbatim>\<open>int\<close> truncates,
  and the number is not negative, so this is its floor.
\<close>

definition time_bonus_of :: "rat \<Rightarrow> int" where
  "time_bonus_of time_taken = \<lfloor>max 0 (30 - time_taken) * 10\<rfloor>"

text \<open>\<^verbatim>\<open>DraftScorer.score_pick\<close> (its argument \<^verbatim>\<open>draft_state\<close> is never read).\<close>

definition score_pick ::
  "string \<Rightarrow> DraftRecommendation list \<Rightarrow> rat \<Rightarrow> GameState
     \<Rightarrow> (int \<times> string \<times> move_extras) \<times> GameState" where
  "score_pick chosen_champion recs time_taken game_state =
     (case rank_branch (find_rank 0 chosen_champion recs) game_state of
        (base_score, verdict, bonuses0, gs1) \<Rightarrow>
          (let tb = time_bonus_of time_taken;
               bonuses1 = bonuses0 @ (if tb > 200 then [(''Speed Bonus'', tb)] else []);
               bonuses2 = bonuses1 @ (if streak_count gs1 > 0
                                       then [(''Streak'', streak_count gs1 * 25)] else []);
               total_score = base_score + tb + sum_list (map snd bonuses2);
               extras = \<lparr> bonuses = bonuses2, streak = streak_count gs1,
                          combo = combo_count gs1, base = base_score, time_bonus = tb \<rparr>
           in ((total_score, verdict, extras), gs1)))"

text \<open>
  One \<^verbatim>\<open>if cond and name not in game_state.achievements\<close> block of
  \<^verbatim>\<open>check_achievements\<close>: both lists get the name appended.
\<close>

definition unlock :: "bool \<Rightarrow> string \<Rightarrow> string list \<times> GameState \<Rightarrow> string list \<times> GameState" where
  "unlock cond name st =
     (if cond \<and> name \<notin> set (achievements (snd st))
      then (fst st @ [name], (snd st)\<lparr> achievements := achievements (snd st) @ [name] \<rparr>)
      else st)"

definition check_achievements :: "GameState \<Rightarrow> string list \<times> GameState" where
  "check_achievements game_state =
     (let moves = moves_evaluated game_state;
          s1 = unlock (perfect_moves game_state \<ge> 10) ''flawless'' ([], game_state);
          avg_time = sum_list (map mv_time_taken moves) / rat_of_nat (max 1 (length moves));
          s2 = unlock (avg_time < 15 \<and> length moves \<ge> 10) ''speedster'' s1
      in unlock (final_win_probability game_state \<ge> 9 / 10) ''draft_god'' s2)"

text \<open>The \<^verbatim>\<open>'bonus'\<close> entries of the dictionary \<^verbatim>\<open>DraftScorer.achievements\<close>.\<close>

definition achievement_bonus :: "string \<rightharpoonup> int" where
  "achievement_bonus =
     map_of [(''first_blood'', 50), (''combo_master'', 150), (''synergy_king'', 200),
             (''counter_strike'', 175), (''speedster'', 125), (''flawless'', 500),
             (''comeback_kid'', 250), (''draft_god'', 300)]"

record final_score =
  base_score :: int
  win_probability_bonus :: int
  achievement_bonus_sum :: int
  total_score :: int
  rating :: string
  rank :: string
  moves_made :: nat
  average_move_score :: rat
  fs_perfect_moves :: int
  combos :: int
  fs_achievements :: "string list"

definition calculate_final_score :: "GameState \<Rightarrow> final_score" where
  "calculate_final_score game_state =
     (let moves = moves_evaluated game_state;
          bs = sum_list (map mv_score moves);
          p = final_win_probability game_state;
          wp_bonus = (if p > 75 / 100 then 800
                      else if p > 65 / 100 then 500
                      else if p > 55 / 100 then 300
                      else if p > 5 / 10 then 100
                      else 0);
          ab = sum_list (map (\<lambda>ach. the (achievement_bonus ach))
                  (filter (\<lambda>ach. achievement_bonus ach \<noteq> None) (achievements game_state)));
          total = bs + wp_bonus + ab;
          rr = (if total \<ge> 3000 then (''Legendary'', ''S+'')
                else if total \<ge> 2000 then (''Master'', ''S'')
                else if total \<ge> 1500 then (''Diamond'', ''A'')
                else if total \<ge> 1000 then (''Platinum'', ''B'')
                else (''Gold'', ''C''))
      in \<lparr> base_score = bs, win_probability_bonus = wp_bonus, achievement_bonus_sum = ab,
           total_score = total, rating = fst rr, rank = snd rr,
           moves_made = length moves,
           average_move_score = (if moves \<noteq> [] then rat_of_int bs / rat_of_nat (length moves) else 0),
           fs_perfect_moves = perfect_moves game_state, combos = combo_count game_state,
           fs_achievements = achievements game_state \<rparr>)"

subsection \<open>Draft Master: the game engine\<close>

text \<open>
  \<^verbatim>\<open>DraftMasterGame\<close>: the corpus and the assistant. The registry \<^verbatim>\<open>active_games\<close> is
  not modelled: each operation takes the session's \<^verbatim>\<open>GameState\<close> and returns the
  updated one.
\<close>

record DraftMasterGame =
  matches :: "parsed_match list"
  assistant :: DraftingAssistant

text \<open>\<^verbatim>\<open>random.choice(seq)\<close>, with the drawn number as an argument.\<close>

definition random_choice :: "nat \<Rightarrow> 'a list \<Rightarrow> exn + 'a" where
  "random_choice rnd xs = (if xs = [] then Inl IndexError else Inr (xs ! (rnd mod length xs)))"


text \<open>\<^verbatim>\<open>list(range(0, 3)) + list(range(5, 7)) + list(range(11, 13))\<close>.\<close>

definition ban_phases :: "int list" where
  "ban_phases = [0, 1, 2] @ [5, 6] @ [11, 12]"

text \<open>
  The list \<^verbatim>\<open>available\<close> that \<^verbatim>\<open>get_available_actions\<close> and \<^verbatim>\<open>_ai_make_move\<close> both
  compute: the champions that are in neither \<^verbatim>\<open>all_picked\<close> nor \<^verbatim>\<open>all_banned\<close>.
\<close>

definition available :: "DraftingAssistant \<Rightarrow> GameState \<Rightarrow> string list" where
  "available a game_state =
     filter (\<lambda>c. c \<notin> set (player_picks game_state @ ai_picks game_state)
                \<and> c \<notin> set (player_bans game_state @ ai_bans game_state))
       (all_champions a)"

record actions =
  action_type :: string
  available_champions :: "string list"
  recommendations :: "DraftRecommendation list"
  time_limit :: int
  phase :: int

text \<open>
  \<^verbatim>\<open>get_available_actions\<close> (the phase description, a table of strings, is left
  out). For \<^verbatim>\<open>'hard'\<close> the source reads \<^verbatim>\<open>recommendations[0]\<close>, which raises on an
  empty list.
\<close>

definition get_available_actions :: "DraftMasterGame \<Rightarrow> GameState \<Rightarrow> exn + actions" where
  "get_available_actions G game_state =
     (let ph = current_phase game_state;
          is_ban = (ph \<in> set ban_phases);
          atype = (if is_ban then ''ban'' else ''pick'');
          avail = available (assistant G) game_state;
          draft_state = \<lparr> team1_picks = player_picks game_state,
                          team1_bans = player_bans game_state,
                          team2_picks = ai_picks game_state,
                          team2_bans = ai_bans game_state,
                          phase_name = atype,
                          turn = (if player_turn game_state then 1 else 2) \<rparr>;
          recs = (if is_ban then recommend_ban (graph (assistant G)) draft_state 1 avail
                  else recommend_pick (graph (assistant G)) draft_state 1 avail);
          hints = (if difficulty game_state = ''easy'' then Inr (take 5 recs)
                   else if difficulty game_state = ''medium'' then Inr (take 3 recs)
                   else if difficulty game_state = ''hard'' then
                     (case recs of [] \<Rightarrow> Inl IndexError | r # _ \<Rightarrow> Inr [r])
                   else Inr [])
      in case hints of
           Inl e \<Rightarrow> Inl e
         | Inr hs \<Rightarrow>
             Inr \<lparr> action_type = atype, available_champions = take 50 avail,
                   recommendations = (if difficulty game_state \<noteq> ''pro'' then hs else []),
                   time_limit = 30, phase = ph \<rparr>)"

text \<open>The dictionary that \<^verbatim>\<open>_ai_make_move\<close> returns; \<open>None\<close> stands for "Strategic choice".\<close>

record ai_move =
  ai_champion :: string
  ai_reasoning :: "reason option"

text \<open>
  The candidate list of the opponent's step: the recommendations for team 2, with the
  opponent's picks as \<^verbatim>\<open>team1_picks\<close> of the draft state it builds.
\<close>

definition ai_recommendations :: "DraftMasterGame \<Rightarrow> GameState \<Rightarrow> string \<Rightarrow> DraftRecommendation list" where
  "ai_recommendations G game_state atype =
     (let draft_state = \<lparr> team1_picks = ai_picks game_state,
                          team1_bans = ai_bans game_state,
                          team2_picks = player_picks game_state,
                          team2_bans = player_bans game_state,
                          phase_name = atype, turn = 2 \<rparr>;
          avail = available (assistant G) game_state
      in if atype = ''ban'' then recommend_ban (graph (assistant G)) draft_state 2 avail
         else recommend_pick (graph (assistant G)) draft_state 2 avail)"

text \<open>
  \<^verbatim>\<open>_ai_make_move\<close>. When the difficulty is none of the four strings, no branch assigns
  \<^verbatim>\<open>chosen\<close> and the next read of it raises \<^verbatim>\<open>UnboundLocalError\<close>.
\<close>

definition ai_make_move :: "DraftMasterGame \<Rightarrow> nat \<Rightarrow> GameState \<Rightarrow> string \<Rightarrow> exn + (ai_move \<times> GameState)" where
  "ai_make_move G rnd game_state atype =
     (let recs = ai_recommendations G game_state atype;
          chosen = (if difficulty game_state = ''easy'' then random_choice rnd (take 10 recs)
                    else if difficulty game_state = ''medium'' then random_choice rnd (take 5 recs)
                    else if difficulty game_state \<in> set [''hard'', ''pro''] then
                      (case recs of [] \<Rightarrow> Inl IndexError | r # _ \<Rightarrow> Inr r)
                    else Inl UnboundLocalError)
      in case chosen of
           Inl e \<Rightarrow> Inl e
         | Inr ch \<Rightarrow>
             Inr (\<lparr> ai_champion = champion ch,
                    ai_reasoning = (case reasoning ch of [] \<Rightarrow> None | r # _ \<Rightarrow> Some r) \<rparr>,
                  if atype = ''ban''
                  then game_state\<lparr> ai_bans := ai_bans game_state @ [champion ch] \<rparr>
                  else game_state\<lparr> ai_picks := ai_picks game_state @ [champion ch] \<rparr>))"

record celebration =
  effects :: "string list"
  message :: string
  c_rank :: string
  title :: string

definition get_celebration :: "final_score \<Rightarrow> string list \<Rightarrow> celebration" where
  "get_celebration fs new_achs =
     (let sc = total_score fs;
          em = (if sc \<ge> 3000 then ([''fireworks'', ''gold_rain'', ''epic_sound''],
                                     ''LEGENDARY PERFORMANCE! You are a Draft Master!'')
                else if sc \<ge> 2000 then ([''confetti'', ''sparkles'', ''victory_sound''],
                                     ''OUTSTANDING! Master-level drafting!'')
                else if sc \<ge> 1500 then ([''stars'', ''shimmer''],
                                     ''Excellent work! Diamond-tier performance!'')
                else if sc \<ge> 1000 then ([''glow''], ''Well played! Solid drafting!'')
                else ([], ''Good effort! Keep practicing!''));
          em1 = (if ''flawless'' \<in> set new_achs
                 then (fst em @ [''rainbow_burst''], ''FLAWLESS VICTORY! Perfect draft!'') else em);
          em2 = (if ''draft_god'' \<in> set new_achs
                 then (fst em1 @ [''lightning''], ''DRAFT GOD! 90%+ win probability achieved!'')
                 else em1)
      in \<lparr> effects = fst em2, message = snd em2, c_rank = rank fs, title = rating fs \<rparr>)"

record comparison =
  real_team_picks :: "string list"
  similarity :: rat
  shared_champions :: "string set"
  real_team_won :: bool

text \<open>
  \<^verbatim>\<open>_compare_to_real_match\<close>: \<open>None\<close> is the empty dictionary returned when no match
  has the session's id; \<^verbatim>\<open>real_match['team_stats'][0]\<close> raises on an empty list.
\<close>

definition compare_to_real_match :: "DraftMasterGame \<Rightarrow> GameState \<Rightarrow> exn + comparison option" where
  "compare_to_real_match G game_state =
     (case find (\<lambda>m. match_id (m_metadata m) = historical_match_id game_state) (matches G) of
        None \<Rightarrow> Inr None
      | Some real_match \<Rightarrow>
          (let real_team1_picks = get_team_picks (m_draft real_match) (team1_id (m_metadata real_match));
               common_picks = set (player_picks game_state) \<inter> set real_team1_picks
           in case m_team_stats real_match of
                [] \<Rightarrow> Inl IndexError
              | ts # _ \<Rightarrow>
                  Inr (Some \<lparr> real_team_picks = real_team1_picks,
                              similarity = rat_of_nat (card common_picks) / 5 * 100,
                              shared_champions = common_picks,
                              real_team_won = ts_win ts \<rparr>)))"

record final_results =
  fr_final_score :: final_score
  win_probability :: rat
  fr_comparison :: "comparison option"
  new_achievements :: "string list"
  fr_celebration :: celebration

text \<open>
  \<^verbatim>\<open>_complete_game\<close>. The result's copies of the four pick and ban lists and its
  \<^verbatim>\<open>stats_breakdown\<close> are left out, except that \<^verbatim>\<open>max\<close> of an empty list of moves
  raises \<^verbatim>\<open>ValueError\<close>. The session is updated before the result dictionary is
  built, so an exception there loses the result, not the update; the model returns
  the exception alone.
\<close>

definition complete_game :: "DraftMasterGame \<Rightarrow> nat \<Rightarrow> GameState \<Rightarrow> exn + (final_results \<times> GameState)" where
  "complete_game G now game_state =
     (let final_draft = \<lparr> team1_picks = player_picks game_state,
                          team1_bans = player_bans game_state,
                          team2_picks = ai_picks game_state,
                          team2_bans = ai_bans game_state,
                          phase_name = ''complete'', turn = 1 \<rparr>;
          probs = predict_win_probability (graph (assistant G)) final_draft;
          gs1 = game_state\<lparr> final_win_probability := team1 probs \<rparr>;
          ca = check_achievements gs1;
          fs = calculate_final_score (snd ca);
          gs3 = (snd ca)\<lparr> completed_at := Some now \<rparr>;
          cel = get_celebration fs (fst ca)
      in case compare_to_real_match G gs3 of
           Inl e \<Rightarrow> Inl e
         | Inr cmp \<Rightarrow>
             if moves_evaluated gs3 = [] then Inl ValueError
             else Inr (\<lparr> fr_final_score = fs, win_probability = team1 probs,
                         fr_comparison = cmp, new_achievements = fst ca,
                         fr_celebration = cel \<rparr>, gs3))"

record move_result =
  player_move :: move_record
  r_ai_move :: ai_move
  current_score :: int
  game_complete :: bool
  r_streak :: int
  r_combo :: int
  r_perfect_moves :: int
  r_final_results :: "final_results option"

text \<open>
  What \<^verbatim>\<open>make_move\<close> returns: the dictionary \<^verbatim>\<open>{'error': ...}\<close> or the result
  dictionary.
\<close>

datatype move_outcome = Error string | Moved move_result

text \<open>
  The three parts of \<^verbatim>\<open>make_move\<close> after its validation, in the order of the source.
  First the player's part: score the move, record it, add its score, append the
  champion to the player's bans or picks.
\<close>

definition record_player_move ::
  "actions \<Rightarrow> string \<Rightarrow> rat \<Rightarrow> GameState \<Rightarrow> move_record \<times> GameState" where
  "record_player_move acts champ time_taken game_state =
     (case score_pick champ (recommendations acts) time_taken game_state of
        ((sc, verdict, extras), gs1) \<Rightarrow>
          (let mr = \<lparr> mv_phase = current_phase gs1, mv_action = action_type acts,
                      mv_champion = champ, mv_score = sc, mv_reasoning = verdict,
                      mv_time_taken = time_taken, mv_extras = extras \<rparr>;
               gs2 = gs1\<lparr> moves_evaluated := moves_evaluated gs1 @ [mr],
                          score := score gs1 + sc \<rparr>
           in (mr, if action_type acts = ''ban''
                   then gs2\<lparr> player_bans := player_bans gs2 @ [champ] \<rparr>
                   else gs2\<lparr> player_picks := player_picks gs2 @ [champ] \<rparr>)))"

text \<open>
  Last, after the opponent's step: advance the phase, build the result, and complete
  the game when the new phase is at least 20.
\<close>

definition advance_phase ::
  "DraftMasterGame \<Rightarrow> nat \<Rightarrow> move_record \<Rightarrow> ai_move \<Rightarrow> GameState
     \<Rightarrow> exn + (move_outcome \<times> GameState)" where
  "advance_phase G now mr am gs4 =
     (let gs5 = gs4\<lparr> current_phase := current_phase gs4 + 1 \<rparr>;
          complete = (current_phase gs5 \<ge> 20);
          res = \<lparr> player_move = mr, r_ai_move = am,
                  current_score = score gs5, game_complete = complete,
                  r_streak = streak_count gs5, r_combo = combo_count gs5,
                  r_perfect_moves = perfect_moves gs5,
                  r_final_results = None \<rparr>
      in if complete then
           (case complete_game G now gs5 of
              Inl e \<Rightarrow> Inl e
            | Inr (fr, gs6) \<Rightarrow> Inr (Moved (res\<lparr> r_final_results := Some fr \<rparr>), gs6))
         else Inr (Moved res, gs5))"

definition make_move ::
  "DraftMasterGame \<Rightarrow> nat \<Rightarrow> nat \<Rightarrow> GameState \<Rightarrow> string \<Rightarrow> rat
     \<Rightarrow> exn + (move_outcome \<times> GameState)" where
  "make_move G rnd now game_state champ time_taken =
     (case get_available_actions G game_state of
        Inl e \<Rightarrow> Inl e
      | Inr acts \<Rightarrow>
          if champ \<notin> set (available_champions acts)
          then Inr (Error ''Invalid champion choice'', game_state)
          else
            (case record_player_move acts champ time_taken game_state of
               (mr, gs3) \<Rightarrow>
                 (case ai_make_move G rnd gs3 (action_type acts) of
                    Inl e \<Rightarrow> Inl e
                  | Inr (am, gs4) \<Rightarrow> advance_phase G now mr am gs4)))"


subsection \<open>Concrete inputs\<close>

text \<open>A pick entry of a draft, and a match of two teams \<^verbatim>\<open>'1'\<close> and \<^verbatim>\<open>'2'\<close>.\<close>

definition pick_of :: "string \<Rightarrow> string \<Rightarrow> draft_entry" where
  "pick_of c t = \<lparr> e_champion = c, e_team_id = t, e_sequence = 0, e_type = ''pick'' \<rparr>"

definition match_of :: "string list \<Rightarrow> bool \<Rightarrow> string list \<Rightarrow> parsed_match" where
  "match_of side1 won1 side2 =
     \<lparr> m_metadata = \<lparr> match_id = ''m1'', md_tournament = ''LCK'', team1_id = ''1'',
                      team1_name = ''T1'', team2_name = ''T2'' \<rparr>,
       m_draft = \<lparr> dd_bans = [],
                   dd_picks = map (\<lambda>c. pick_of c ''1'') side1 @ map (\<lambda>c. pick_of c ''2'') side2,
                   dd_sequence = map (\<lambda>c. pick_of c ''1'') side1 @ map (\<lambda>c. pick_of c ''2'') side2 \<rparr>,
       m_team_stats = [\<lparr> ts_team_id = ''1'', ts_win = won1 \<rparr>,
                       \<lparr> ts_team_id = ''2'', ts_win = \<not> won1 \<rparr>] \<rparr>"

text \<open>Three matches in which A and B, as team 1, beat C.\<close>

definition corpus_ab :: "parsed_match list" where
  "corpus_ab = replicate 3 (match_of [''A'', ''B''] True [''C''])"

text \<open>Three matches in which A, as team 1, loses to B.\<close>

definition corpus_lost :: "parsed_match list" where
  "corpus_lost = replicate 3 (match_of [''A''] False [''B''])"

text \<open>The entities a draft state holds: both sides' picks and bans.\<close>

definition taken :: "DraftState \<Rightarrow> string set" where
  "taken ds = set (team1_picks ds @ team2_picks ds @ team1_bans ds @ team2_bans ds)"

text \<open>A draft state in which side 1 has picked A and side 2 has picked B.\<close>

definition state_a_picked :: DraftState where
  "state_a_picked = \<lparr> team1_picks = [''A''], team1_bans = [], team2_picks = [''B''],
      team2_bans = [], phase_name = ''pick1'', turn = 1 \<rparr>"

text \<open>
  The state a new session starts in, for a given difficulty: what \<^verbatim>\<open>start_new_game\<close>
  returns for the match \<^verbatim>\<open>m1\<close> of the concrete corpora above.
\<close>

definition fresh_game :: "string \<Rightarrow> GameState" where
  "fresh_game diff =
     \<lparr> game_id = ''game_1'', player_name = ''P'', difficulty = diff,
       historical_match_id = ''m1'', tournament = ''LCK'', real_team1 = ''T1'',
       real_team2 = ''T2'', player_picks = [], player_bans = [], ai_picks = [], ai_bans = [],
       current_phase = 0, player_turn = True, score = 0, moves_evaluated = [],
       combo_count = 0, streak_count = 0, powerups_active = [], achievements = [],
       perfect_moves = 0, started_at = 0, completed_at = None, final_win_probability = 0 \<rparr>"

subsection \<open>The scoring rules in the words of the specification\<close>


text \<open>Time bonus: max(0, 30 - timeTaken) * 10.\<close>

definition spec_time_bonus :: "rat \<Rightarrow> rat" where
  "spec_time_bonus t = max 0 (30 - t) * 10"

text \<open>
  A graph with the win rates 0.92 for A and 0.08 for B and nothing else, a game over it,
  and a session state at phase 20 in which the player holds A and the opponent B.
\<close>

definition graph92 :: ChampionGraph where
  "graph92 = new_graph\<lparr> win_rates := [''A'' \<mapsto> 92 / 100, ''B'' \<mapsto> 8 / 100] \<rparr>"

definition game92 :: DraftMasterGame where
  "game92 = \<lparr> matches = [], assistant = \<lparr> graph = graph92, all_champions = [''A'', ''B''] \<rparr> \<rparr>"

definition a_move :: move_record where
  "a_move = \<lparr> mv_phase = 19, mv_action = ''pick'', mv_champion = ''A'', mv_score = 175,
       mv_reasoning = ''Optimal pick!'', mv_time_taken = 30,
       mv_extras = \<lparr> bonuses = [(''First Blood'', 50), (''Streak'', 25)], streak = 1, combo = 0,
                     base = 100, time_bonus = 0 \<rparr> \<rparr>"

definition state92 :: GameState where
  "state92 = (fresh_game ''pro'')\<lparr> player_picks := [''A''], ai_picks := [''B''],
       current_phase := 20, score := 175, moves_evaluated := [a_move],
       streak_count := 1, perfect_moves := 1 \<rparr>"


section \<open>Properties\<close>

lemma later_pairs_length_pos: "length xs \<ge> 2 \<Longrightarrow> later_pairs xs \<noteq> []"
  by (cases xs; cases "tl xs") auto

subsection \<open>Recommendation lists\<close>

lemma length_sort_desc: "length (sort_desc f xs) = length xs"
  by (simp add: sort_desc_def)

lemma set_sort_desc: "set (sort_desc f xs) = set xs"
  by (simp add: sort_desc_def)

lemma sorted_sort_desc: "sorted_wrt (\<lambda>a b. f b \<le> f a) (sort_desc f xs)"
proof -
  have "sorted (map (\<lambda>x. - f x) (sort_key (\<lambda>x. - f x) xs))"
    by (rule sorted_sort_key)
  then show ?thesis
    by (simp add: sort_desc_def sorted_map)
qed

lemma length_recommend_pick:
  "length (recommend_pick g ds team pool) = min 10 (min 30 (length pool))"
  by (simp add: recommend_pick_def Let_def length_sort_desc min.commute)

lemma length_recommend_ban:
  "length (recommend_ban g ds team pool) = min 10 (min 30 (length pool))"
  by (simp add: recommend_ban_def Let_def length_sort_desc min.commute)

lemma recommend_pick_Nil: "recommend_pick g ds team pool = [] \<longleftrightarrow> pool = []"
  using length_recommend_pick [of g ds team pool] by (cases pool) auto

lemma recommend_ban_Nil: "recommend_ban g ds team pool = [] \<longleftrightarrow> pool = []"
  using length_recommend_ban [of g ds team pool] by (cases pool) auto

lemma champion_pick_recommendation: "champion (pick_recommendation g my opp c) = c"
  by (simp add: pick_recommendation_def Let_def)

lemma champion_ban_recommendation: "champion (ban_recommendation g my c) = c"
  by (simp add: ban_recommendation_def Let_def)

lemma champions_recommend_pick:
  "champion ` set (recommend_pick g ds team pool) \<subseteq> set (take 30 pool)"
proof -
  have "set (recommend_pick g ds team pool)
          \<subseteq> set (map (pick_recommendation g (if team = 1 then team1_picks ds else team2_picks ds)
                   (if team = 1 then team2_picks ds else team1_picks ds)) (take 30 pool))"
    unfolding recommend_pick_def Let_def
    by (metis set_sort_desc set_take_subset)
  then show ?thesis
    by (auto simp: champion_pick_recommendation)
qed

lemma sorted_recommend_pick:
  "sorted_wrt (\<lambda>a b. win_rate_impact b \<le> win_rate_impact a) (recommend_pick g ds team pool)"
  unfolding recommend_pick_def Let_def
  by (rule sorted_wrt_take) (rule sorted_sort_desc)

lemmas build_defs = build_from_matches_def match_of_def pick_of_def tally_match_def
  tally_team_def get_team_picks_def no_tallies_def tally_champion_def tally_teammates_def
  tally_matchup_def sorted_pair_def cross_pairs_def Let_def synergy_step_def counter_step_def
  win_rate_step_def pick_rate_step_def new_graph_def win_rate_of_def count_of_def

lemmas query_defs = get_champion_power_def get_team_synergy_def get_counter_score_def
  mean_def pick_rate_of_def counter_of_def synergy_of_def

subsection \<open>C1: the synergy of a teammate pair\<close>

text \<open>
  Claim C1 says that after the build the stored synergy of a pair seen together at
  least three times is the pair's joint win rate minus the average of the two
  champions' own win rates from the same corpus, stored for both orders.

  \<^verbatim>\<open>build_from_matches\<close> computes the synergies before it computes the win rates, so
  on a new graph the expected rate it subtracts is the default 0.5 for every pair. On
  the corpus of three matches that A and B win together, the pair's win rate is
  3/3 = 1 and each champion's own win rate is 1, so the claimed synergy is
  1 - (1 + 1)/2 = 0; the stored value is 1 - 0.5 = 1/2 (for both orders). All
  numbers here are exact in binary floating point.
\<close>

theorem synergy_ignores_computed_win_rates:
  "(let t = fold tally_match corpus_ab no_tallies;
        g = build_from_matches new_graph corpus_ab
    in count_of (teammate_pairs t) (''A'', ''B'') = 3
       \<and> count_of (teammate_wins t) (''A'', ''B'') = 3
       \<and> win_rates g ''A'' = Some 1 \<and> win_rates g ''B'' = Some 1
       \<and> synergies g ''A'' ''B'' = Some (1 / 2)
       \<and> synergies g ''B'' ''A'' = Some (1 / 2)
       \<and> synergies g ''A'' ''B'' \<noteq> Some (3 / 3 - (1 + 1) / 2))"
  by (simp add: corpus_ab_def build_defs numeral_3_eq_3)

subsection \<open>C2: the predicted probabilities\<close>

text \<open>
  Claim C2 says that the two values \<^verbatim>\<open>predict_win_probability\<close> returns sum to 1 and
  lie in [0,1], and are both 0.5 when neither side has picked.

  The scores are only normalised by their sum, and a score can be negative while the
  sum is positive. On the graph built from three matches that A loses to B, the state
  with picks A against B gets the scores 0.1 - 0.5 = -0.4 and 1.1 + 0.5 = 1.6, and the
  values returned are -1/3 and 4/3. (In floating point the values are rounded, and
  remain below 0 and above 1.)
\<close>

theorem predicted_probability_outside_unit_interval:
  "(let g = build_from_matches new_graph corpus_lost;
        p = predict_win_probability g
              \<lparr> team1_picks = [''A''], team1_bans = [], team2_picks = [''B''],
                team2_bans = [], phase_name = ''pick1'', turn = 1 \<rparr>
    in team1 p = - 1 / 3 \<and> team2 p = 4 / 3 \<and> team1 p < 0 \<and> team2 p > 1)"
  by (simp add: corpus_lost_def build_defs numeral_3_eq_3 predict_win_probability_def query_defs)

subsection \<open>C8: the pick recommendations\<close>

lemma recommend_pick_member:
  assumes "r \<in> set (recommend_pick g ds team pool)"
  shows "r = pick_recommendation g (if team = 1 then team1_picks ds else team2_picks ds)
               (if team = 1 then team2_picks ds else team1_picks ds) (champion r)"
proof -
  from assms
  have "r \<in> set (map (pick_recommendation g (if team = 1 then team1_picks ds else team2_picks ds)
                   (if team = 1 then team2_picks ds else team1_picks ds)) (take 30 pool))"
    unfolding recommend_pick_def Let_def
    by (metis set_sort_desc in_set_takeD)
  then show ?thesis
    by (auto simp: champion_pick_recommendation)
qed

text \<open>
  Claim C8 says that for every draft state and candidate pool \<^verbatim>\<open>recommend_pick\<close>
  returns at most 10 recommendations, sorted non-increasing by impact, none of them an
  entity already among either side's picks or bans.

  The function does not filter the pool: it evaluates its first 30 entries as they
  come (the docstring makes an unpicked, unbanned pool the caller's contract). With A
  picked by side 1 and the pool [A], it recommends A.
\<close>

theorem recommend_pick_returns_picked_entity:
  "map champion (recommend_pick new_graph state_a_picked 1 [''A'']) = [''A'']
   \<and> ''A'' \<in> set (team1_picks state_a_picked)"
  by (simp add: recommend_pick_def sort_desc_def champion_pick_recommendation state_a_picked_def)

text \<open>
  C8 as amended: for every graph, draft state, side and pool, \<^verbatim>\<open>recommend_pick\<close>
  returns at most 10 recommendations, sorted non-increasing by impact; every returned
  entity is an entry of the pool; so when the pool holds no entity that is among
  either side's picks or bans, no returned entity is.
\<close>

theorem recommend_pick_top10_sorted_from_pool:
  "length (recommend_pick g ds team pool) \<le> 10
   \<and> sorted_wrt (\<lambda>a b. win_rate_impact b \<le> win_rate_impact a) (recommend_pick g ds team pool)
   \<and> champion ` set (recommend_pick g ds team pool) \<subseteq> set pool
   \<and> (set pool \<inter> taken ds = {}
        \<longrightarrow> champion ` set (recommend_pick g ds team pool) \<inter> taken ds = {})"
proof -
  have sub: "champion ` set (recommend_pick g ds team pool) \<subseteq> set pool"
    using champions_recommend_pick [of g ds team pool] set_take_subset [of 30 pool] by blast
  have len: "length (recommend_pick g ds team pool) \<le> 10"
    by (simp add: length_recommend_pick)
  from sub have "set pool \<inter> taken ds = {}
        \<longrightarrow> champion ` set (recommend_pick g ds team pool) \<inter> taken ds = {}"
    by blast
  with sub len sorted_recommend_pick [of g ds team pool] show ?thesis by blast
qed

theorem recommend_pick_top10_sorted_from_pool_witness:
  "length (recommend_pick new_graph state_a_picked 1 [''C'', ''D'']) \<le> 10
   \<and> sorted_wrt (\<lambda>a b. win_rate_impact b \<le> win_rate_impact a)
        (recommend_pick new_graph state_a_picked 1 [''C'', ''D''])
   \<and> champion ` set (recommend_pick new_graph state_a_picked 1 [''C'', ''D'']) \<inter> {''A'', ''B''} = {}"
  using recommend_pick_top10_sorted_from_pool [of new_graph state_a_picked 1 "[''C'', ''D'']"]
  by (simp add: taken_def state_a_picked_def)

text \<open>
  The impact the list is sorted by is the total score minus 0.5, the total score
  being power + 0.3 * team synergy + 0.4 * counter score of the side's picks with the
  candidate appended.
\<close>

lemma recommend_pick_impact:
  assumes "r \<in> set (recommend_pick g ds 1 pool)"
  shows "win_rate_impact r =
           get_champion_power g (champion r)
           + get_team_synergy g (team1_picks ds @ [champion r]) * (3 / 10)
           + get_counter_score g (team1_picks ds @ [champion r]) (team2_picks ds) * (4 / 10)
           - 1 / 2"
proof -
  have "r = pick_recommendation g (team1_picks ds) (team2_picks ds) (champion r)"
    using recommend_pick_member [OF assms] by simp
  then have "win_rate_impact r
      = win_rate_impact (pick_recommendation g (team1_picks ds) (team2_picks ds) (champion r))"
    by simp
  then show ?thesis
    by (simp add: pick_recommendation_def Let_def)
qed

subsection \<open>C6: the points of a graded move\<close>


lemma time_bonus_of_spec: "time_bonus_of t = \<lfloor>spec_time_bonus t\<rfloor>"
  by (simp add: time_bonus_of_def spec_time_bonus_def)



subsection \<open>C7: finalization at win probability 0.92\<close>

lemma unlock_snd_fields [simp]:
  "moves_evaluated (snd (unlock b n st)) = moves_evaluated (snd st)"
  "final_win_probability (snd (unlock b n st)) = final_win_probability (snd st)"
  "perfect_moves (snd (unlock b n st)) = perfect_moves (snd st)"
  "combo_count (snd (unlock b n st)) = combo_count (snd st)"
  "current_phase (snd (unlock b n st)) = current_phase (snd st)"
  by (simp_all add: unlock_def)

lemma unlock_achievements:
  "achievements (snd (unlock b n st)) =
     (if b \<and> n \<notin> set (achievements (snd st)) then achievements (snd st) @ [n] else achievements (snd st))"
  by (simp add: unlock_def)

lemma unlock_count_other:
  "n \<noteq> a \<Longrightarrow> count_list (achievements (snd (unlock b n st))) a = count_list (achievements (snd st)) a"
  by (simp add: unlock_achievements)

lemma unlock_count_same:
  "count_list (achievements (snd st)) n \<le> 1 \<Longrightarrow> b \<or> n \<in> set (achievements (snd st)) \<Longrightarrow>
   count_list (achievements (snd (unlock b n st))) n = 1"
proof (cases "n \<in> set (achievements (snd st))")
  case True
  then have "count_list (achievements (snd st)) n \<noteq> 0"
    by (simp add: count_list_0_iff)
  moreover assume "count_list (achievements (snd st)) n \<le> 1"
  ultimately show ?thesis using True by (simp add: unlock_achievements)
next
  case False
  moreover assume "b \<or> n \<in> set (achievements (snd st))"
  ultimately show ?thesis by (simp add: unlock_achievements count_list_0_iff)
qed

lemma unlock_new:
  "b \<Longrightarrow> n \<notin> set (achievements (snd st)) \<Longrightarrow> n \<in> set (fst (unlock b n st))"
  by (simp add: unlock_def)

lemma check_achievements_fields [simp]:
  "moves_evaluated (snd (check_achievements gs)) = moves_evaluated gs"
  "final_win_probability (snd (check_achievements gs)) = final_win_probability gs"
  by (simp_all add: check_achievements_def Let_def)

lemma check_achievements_draft_god:
  assumes p: "final_win_probability gs \<ge> 9 / 10"
      and c: "count_list (achievements gs) ''draft_god'' \<le> 1"
  shows "count_list (achievements (snd (check_achievements gs))) ''draft_god'' = 1"
    and "''draft_god'' \<notin> set (achievements gs) \<Longrightarrow> ''draft_god'' \<in> set (fst (check_achievements gs))"
proof -
  let ?s1 = "unlock (perfect_moves gs \<ge> 10) ''flawless'' ([], gs)"
  let ?s2 = "unlock (sum_list (map mv_time_taken (moves_evaluated gs))
                       / rat_of_nat (max 1 (length (moves_evaluated gs))) < 15
                     \<and> length (moves_evaluated gs) \<ge> 10) ''speedster'' ?s1"
  have eq: "check_achievements gs = unlock (final_win_probability gs \<ge> 9 / 10) ''draft_god'' ?s2"
    by (simp add: check_achievements_def Let_def)
  have c2: "count_list (achievements (snd ?s2)) ''draft_god'' = count_list (achievements gs) ''draft_god''"
    by (simp add: unlock_count_other)
  show "count_list (achievements (snd (check_achievements gs))) ''draft_god'' = 1"
    unfolding eq using p c c2 by (intro unlock_count_same) simp_all
  assume "''draft_god'' \<notin> set (achievements gs)"
  then have "count_list (achievements gs) ''draft_god'' = 0" by (simp add: count_list_0_iff)
  with c2 have "''draft_god'' \<notin> set (achievements (snd ?s2))"
    by (simp add: count_list_0_iff)
  with p show "''draft_god'' \<in> set (fst (check_achievements gs))"
    unfolding eq by (intro unlock_new) simp_all
qed

lemma sum_list_filter_split:
  "count_list xs a = 1 \<Longrightarrow> P a \<Longrightarrow>
   sum_list (map f (filter P xs)) = f a + sum_list (map f (filter (\<lambda>x. x \<noteq> a \<and> P x) xs))"
  for f :: "'a \<Rightarrow> int"
proof (induction xs)
  case Nil
  then show ?case by simp
next
  case (Cons x xs)
  show ?case
  proof (cases "x = a")
    case True
    with Cons.prems have "count_list xs a = 0" by simp
    then have "a \<notin> set xs" by (simp add: count_list_0_iff)
    then have "filter (\<lambda>x. x \<noteq> a \<and> P x) xs = filter P xs"
      by (intro filter_cong) auto
    with True Cons.prems show ?thesis by simp
  next
    case False
    with Cons show ?thesis by simp
  qed
qed

lemma calculate_final_score_total:
  "total_score (calculate_final_score gs) =
     sum_list (map mv_score (moves_evaluated gs)) + win_probability_bonus (calculate_final_score gs)
     + achievement_bonus_sum (calculate_final_score gs)"
  "base_score (calculate_final_score gs) = sum_list (map mv_score (moves_evaluated gs))"
  "final_win_probability gs > 75 / 100 \<Longrightarrow> win_probability_bonus (calculate_final_score gs) = 800"
  "achievement_bonus_sum (calculate_final_score gs) =
     sum_list (map (\<lambda>ach. the (achievement_bonus ach))
        (filter (\<lambda>ach. achievement_bonus ach \<noteq> None) (achievements gs)))"
  by (simp_all add: calculate_final_score_def Let_def)

lemma draft_god_bonus: "achievement_bonus ''draft_god'' = Some 300"
  by (simp add: achievement_bonus_def)

text \<open>
  Claim C7: when a session is completed with final win probability 0.92, finalization
  unlocks \<^verbatim>\<open>draft_god\<close> exactly once, and the final score's total is the sum of the
  graded moves' points plus the win-probability bonus 800 plus the achievement bonus,
  which includes 300 for \<^verbatim>\<open>draft_god\<close>.

  Stated for \<^verbatim>\<open>_complete_game\<close>: if it returns, the win probability it computed is
  0.92 and the achievement list held \<^verbatim>\<open>draft_god\<close> at most once before (it is empty in
  a session that completes for the first time), then afterwards the list holds it
  exactly once, it is reported as newly unlocked when it was absent, and the total is
  as claimed, the achievement bonus being 300 plus the bonuses of the other unlocked
  achievements.
\<close>

theorem complete_game_draft_god:
  assumes cg: "complete_game G now gs = Inr (fr, gs')"
      and wp: "win_probability fr = 92 / 100"
      and once: "count_list (achievements gs) ''draft_god'' \<le> 1"
  shows "final_win_probability gs' = 92 / 100
       \<and> count_list (achievements gs') ''draft_god'' = 1
       \<and> (''draft_god'' \<notin> set (achievements gs) \<longrightarrow> ''draft_god'' \<in> set (new_achievements fr))
       \<and> total_score (fr_final_score fr)
           = sum_list (map mv_score (moves_evaluated gs')) + 800
             + achievement_bonus_sum (fr_final_score fr)
       \<and> achievement_bonus_sum (fr_final_score fr)
           = 300 + sum_list (map (\<lambda>a. the (achievement_bonus a))
                     (filter (\<lambda>a. a \<noteq> ''draft_god'' \<and> achievement_bonus a \<noteq> None) (achievements gs')))"
proof -
  define p where "p = team1 (predict_win_probability (graph (assistant G))
      \<lparr> team1_picks = player_picks gs, team1_bans = player_bans gs,
        team2_picks = ai_picks gs, team2_bans = ai_bans gs,
        phase_name = ''complete'', turn = 1 \<rparr>)"
  define gs1 where "gs1 = gs\<lparr> final_win_probability := p \<rparr>"
  define ca where "ca = check_achievements gs1"
  from cg have fr: "win_probability fr = p" "new_achievements fr = fst ca"
      "fr_final_score fr = calculate_final_score (snd ca)"
    and gs': "gs' = (snd ca)\<lparr> completed_at := Some now \<rparr>"
    by (auto simp: complete_game_def Let_def p_def gs1_def ca_def split: sum.splits if_splits)
  from wp fr have p92: "p = 92 / 100" by simp
  have fwp: "final_win_probability gs1 = 92 / 100" by (simp add: gs1_def p92)
  have once1: "count_list (achievements gs1) ''draft_god'' \<le> 1"
    using once by (simp add: gs1_def)
  have ge: "final_win_probability gs1 \<ge> 9 / 10" by (simp add: fwp)
  have cnt: "count_list (achievements (snd ca)) ''draft_god'' = 1"
    unfolding ca_def by (rule check_achievements_draft_god(1) [OF ge once1])
  have new: "''draft_god'' \<notin> set (achievements gs) \<longrightarrow> ''draft_god'' \<in> set (new_achievements fr)"
    using check_achievements_draft_god(2) [OF ge once1] by (simp add: fr ca_def gs1_def)
  have fwp2: "final_win_probability (snd ca) = 92 / 100"
    by (simp add: ca_def fwp)
  have bonus: "win_probability_bonus (calculate_final_score (snd ca)) = 800"
    by (rule calculate_final_score_total(3)) (simp add: fwp2)
  have ab: "achievement_bonus_sum (calculate_final_score (snd ca))
      = 300 + sum_list (map (\<lambda>a. the (achievement_bonus a))
                (filter (\<lambda>a. a \<noteq> ''draft_god'' \<and> achievement_bonus a \<noteq> None) (achievements (snd ca))))"
    unfolding calculate_final_score_total(4)
    using sum_list_filter_split [OF cnt, of "\<lambda>a. achievement_bonus a \<noteq> None" "\<lambda>a. the (achievement_bonus a)"]
    by (simp add: draft_god_bonus)
  show ?thesis
    using cnt new ab bonus calculate_final_score_total(1) [of "snd ca"]
    by (simp add: gs' fr fwp2)
qed

theorem complete_game_draft_god_witness:
  "\<exists>fr gs'. complete_game game92 7 state92 = Inr (fr, gs')
     \<and> win_probability fr = 92 / 100
     \<and> count_list (achievements state92) ''draft_god'' \<le> 1
     \<and> count_list (achievements gs') ''draft_god'' = 1
     \<and> ''draft_god'' \<in> set (new_achievements fr)
     \<and> total_score (fr_final_score fr)
           = sum_list (map mv_score (moves_evaluated gs')) + 800
             + achievement_bonus_sum (fr_final_score fr)"
proof -
  have "\<exists>fr gs'. complete_game game92 7 state92 = Inr (fr, gs') \<and> win_probability fr = 92 / 100"
    by (simp add: complete_game_def Let_def game92_def graph92_def state92_def fresh_game_def
        new_graph_def compare_to_real_match_def predict_win_probability_def query_defs
        win_rate_of_def)
  then obtain fr gs' where cg: "complete_game game92 7 state92 = Inr (fr, gs')"
    and wp: "win_probability fr = 92 / 100" by blast
  have once: "count_list (achievements state92) ''draft_god'' \<le> 1"
    by (simp add: state92_def fresh_game_def)
  have "''draft_god'' \<notin> set (achievements state92)"
    by (simp add: state92_def fresh_game_def)
  with complete_game_draft_god [OF cg wp once] cg wp once show ?thesis by blast
qed

subsection \<open>What a move changes\<close>





lemma complete_game_frame:
  "complete_game G now gs = Inr (fr, gs1) \<Longrightarrow>
     current_phase gs1 = current_phase gs \<and> completed_at gs1 = Some now"
  by (auto simp: complete_game_def Let_def check_achievements_def split: sum.splits if_splits)

lemma advance_phase_Moved:
  assumes "advance_phase G now mr am gs4 = Inr (out, gs')"
  shows "\<exists>res. out = Moved res \<and> game_complete res = (current_phase gs' \<ge> 20)"
    and "current_phase gs' = current_phase gs4 + 1"
    and "completed_at gs' = (if current_phase gs' \<ge> 20 then Some now else completed_at gs4)"
  using assms
  unfolding advance_phase_def Let_def
  by (auto split: sum.splits if_splits dest!: complete_game_frame)


lemma make_move_Error:
  assumes "make_move G rnd now gs champ t = Inr (Error msg, gs')"
  shows "gs' = gs" and "msg = ''Invalid champion choice''"
    and "\<exists>acts. get_available_actions G gs = Inr acts \<and> champ \<notin> set (available_champions acts)"
  using assms
  unfolding make_move_def
  by (auto split: sum.splits if_splits prod.splits dest: advance_phase_Moved(1))

subsection \<open>C5: the phase index\<close>










end
